theory Spec2Isabelle
  imports Main "HOL-Library.AList"
begin

section \<open>Strings of the host language\<close>

text \<open>
  JavaScript strings are modelled as \<open>string\<close>. The two case conversions the helpers
  rely on (\<open>String.prototype.toUpperCase\<close> on the words \<open>debug\<close> and \<open>error\<close>, and the
  ASCII lower-casing that the style object applies to property names) only ever matter on
  ASCII letters, so both are given as the 26-letter table and leave every other character
  alone.
\<close>

definition ascii_upper :: "char \<Rightarrow> char" where
  "ascii_upper c =
     (case map_of (zip ''abcdefghijklmnopqrstuvwxyz'' ''ABCDEFGHIJKLMNOPQRSTUVWXYZ'') c of
        Some u \<Rightarrow> u
      | None \<Rightarrow> c)"

definition ascii_lower :: "char \<Rightarrow> char" where
  "ascii_lower c =
     (case map_of (zip ''ABCDEFGHIJKLMNOPQRSTUVWXYZ'' ''abcdefghijklmnopqrstuvwxyz'') c of
        Some l \<Rightarrow> l
      | None \<Rightarrow> c)"

definition toUpperCase :: "string \<Rightarrow> string" where
  "toUpperCase s = map ascii_upper s"

definition toLowerCase :: "string \<Rightarrow> string" where
  "toLowerCase s = map ascii_lower s"

definition dquote :: char where
  "dquote = CHR 0x22"


section \<open>The element finders (get-html-element)\<close>

subsection \<open>Host environment: selector queries and the console\<close>

text \<open>
  The document tree and the selector engine belong to the browser. They enter the model as
  one parameter \<open>dom\<close>: given a root (\<open>None\<close> is \<open>document\<close>, \<open>Some n\<close> the element
  \<open>n\<close>) and a selector string, it either throws (\<open>Inl e\<close>, the \<open>SyntaxError\<close> of a
  selector the engine cannot parse) or yields the matching nodes in document order.
  \<open>querySelectorAll\<close> returns that list and \<open>querySelector\<close> its first element or
  \<open>null\<close>, as the DOM standard defines both from the same match.

  The console is the list of calls made so far; a call records which function was called
  (\<open>console.debug\<close> or \<open>console.error\<close>), the message and the second argument (the
  \<open>parent\<close> option as passed, \<open>None\<close> for \<open>undefined\<close>).
\<close>

type_synonym ('e, 'n) dom = "'n option \<Rightarrow> string \<Rightarrow> 'e + 'n list"

definition querySelectorAll :: "('e, 'n) dom \<Rightarrow> 'n option \<Rightarrow> string \<Rightarrow> 'e + 'n list" where
  "querySelectorAll d root sel = d root sel"

definition querySelector :: "('e, 'n) dom \<Rightarrow> 'n option \<Rightarrow> string \<Rightarrow> 'e + 'n option" where
  "querySelector d root sel =
     (case d root sel of
        Inl e \<Rightarrow> Inl e
      | Inr [] \<Rightarrow> Inr None
      | Inr (x # _) \<Rightarrow> Inr (Some x))"

datatype console_method = ConsoleDebug | ConsoleError

record 'n console_call =
  called :: console_method
  message :: string
  argument :: "'n option"

subsection \<open>Options\<close>

text \<open>
  The option \<open>log\<close> is one of the strings \<open>debug\<close> and \<open>error\<close> or the boolean
  \<open>false\<close>; the field may be left out (\<open>None\<close>), in which case the destructuring
  default \<open>debug\<close> applies.
\<close>

datatype log_level = LogDebug | LogError | LogFalse

record 'n GetHtmlElementProps =
  selector :: string
  parent :: "'n option"
  log :: "log_level option"

definition log_or_default :: "'n GetHtmlElementProps \<Rightarrow> log_level" where
  "log_or_default props = (case log props of None \<Rightarrow> LogDebug | Some l \<Rightarrow> l)"

text \<open>
  The text of the level, as \<open>log.toUpperCase()\<close> reads it. The call is only reached when
  \<open>log\<close> is not \<open>false\<close>, so the third equation is never rendered.
\<close>

fun log_string :: "log_level \<Rightarrow> string" where
  "log_string LogDebug = ''debug''"
| "log_string LogError = ''error''"
| "log_string LogFalse = ''false''"

definition console_method_of :: "log_level \<Rightarrow> console_method" where
  "console_method_of l = (if l = LogDebug then ConsoleDebug else ConsoleError)"

definition where_searched :: "'n option \<Rightarrow> string" where
  "where_searched p = (if p \<noteq> None then ''the specified parent element:'' else ''the document.'')"

subsection \<open>getHtmlElement\<close>

definition element_not_found_message :: "log_level \<Rightarrow> string \<Rightarrow> 'n option \<Rightarrow> string" where
  "element_not_found_message l sel p =
     toUpperCase (log_string l) @ '': Element with selector '' @ [dquote] @ sel @ [dquote]
       @ '' not found in '' @ where_searched p"

definition getHtmlElement ::
  "('e, 'n) dom \<Rightarrow> 'n GetHtmlElementProps \<Rightarrow> 'n console_call list
     \<Rightarrow> 'e + ('n option \<times> 'n console_call list)" where
  "getHtmlElement d props console =
     (let l = log_or_default props in
      case querySelector d (parent props) (selector props) of
        Inl e \<Rightarrow> Inl e
      | Inr None \<Rightarrow>
          if l = LogFalse then Inr (None, console)
          else
            let consoleMethod = console_method_of l in
            Inr (None,
                 console @ [\<lparr>called = consoleMethod,
                             message = element_not_found_message l (selector props) (parent props),
                             argument = parent props\<rparr>])
      | Inr (Some targetElement) \<Rightarrow> Inr (Some targetElement, console))"

subsection \<open>getMultipleHtmlElements\<close>

definition no_elements_found_message :: "log_level \<Rightarrow> string \<Rightarrow> 'n option \<Rightarrow> string" where
  "no_elements_found_message l sel p =
     toUpperCase (log_string l) @ '': No elements found with selector '' @ [dquote] @ sel @ [dquote]
       @ '' in '' @ where_searched p"

definition getMultipleHtmlElements ::
  "('e, 'n) dom \<Rightarrow> 'n GetHtmlElementProps \<Rightarrow> 'n console_call list
     \<Rightarrow> 'e + ('n list option \<times> 'n console_call list)" where
  "getMultipleHtmlElements d props console =
     (let l = log_or_default props in
      case querySelectorAll d (parent props) (selector props) of
        Inl e \<Rightarrow> Inl e
      | Inr targetElements \<Rightarrow>
          if length targetElements = 0 then
            if l = LogFalse then Inr (None, console)
            else
              let consoleMethod = console_method_of l in
              Inr (None,
                   console @ [\<lparr>called = consoleMethod,
                               message = no_elements_found_message l (selector props) (parent props),
                               argument = parent props\<rparr>])
          else Inr (Some targetElements, console))"

subsection \<open>getActiveScript\<close>

text \<open>
  \<open>import.meta.url\<close> is fixed by the loader; it is the parameter \<open>currentModuleUrl\<close>.
  The template literal pastes it between the two double quotes as it is.
\<close>

definition active_script_selector :: "string \<Rightarrow> string" where
  "active_script_selector currentModuleUrl =
     ''script[src='' @ [dquote] @ currentModuleUrl @ [dquote] @ '']''"

definition getActiveScript ::
  "('e, 'n) dom \<Rightarrow> string \<Rightarrow> 'n console_call list \<Rightarrow> 'e + ('n option \<times> 'n console_call list)" where
  "getActiveScript d currentModuleUrl console =
     getHtmlElement d
       \<lparr>selector = active_script_selector currentModuleUrl, parent = None, log = None\<rparr>
       console"

section \<open>The style patcher (set-style)\<close>

subsection \<open>Host environment: the inline style object\<close>

text \<open>
  \<open>element.style\<close> is the browser's \<open>CSSStyleDeclaration\<close>. Its state is the set of
  inline declarations, a map from the name of a longhand or custom property to its value; a
  property without a declaration is absent from the map. What the browser knows about
  CSS is the parameter \<open>css_engine\<close>:
  \<^item> \<open>supported p\<close>: \<open>p\<close> is the name, in CSS spelling, of a property the engine knows;
  \<^item> \<open>longhands p\<close>: the names under which a supported property is stored: the property
    itself for a longhand, the longhands of a shorthand (\<open>margin\<close> stands for
    \<open>margin-top\<close>, \<open>margin-right\<close>, \<open>margin-bottom\<close>, \<open>margin-left\<close>), the target of a
    legacy alias (\<open>-webkit-transform\<close> is stored as \<open>transform\<close>);
  \<^item> \<open>parse_value p v\<close>: \<open>None\<close> when \<open>v\<close> is not a valid value of \<open>p\<close>, otherwise the
    values to store, one for each name of \<open>longhands p\<close> and in that order;
  \<^item> \<open>serialize_shorthand p vs\<close>: the text of a shorthand whose longhands have the values
    \<open>vs\<close>;
  \<^item> \<open>parse_css_text t\<close>: the declarations that the text \<open>t\<close> of a declaration block
    stands for, in order;
  \<^item> \<open>read_only k\<close>: \<open>k\<close> names a member of the style object that cannot be assigned
    (\<open>length\<close>, \<open>parentRule\<close>, an index); the module is strict code, so such an assignment
    throws a \<open>TypeError\<close>.

  The operations follow the CSSOM standard:
  \<^item> a custom property is a name of more than two characters that starts with two dashes;
    its name is case-sensitive;
  \<^item> \<open>getPropertyValue\<close>, \<open>setProperty\<close> and \<open>removeProperty\<close> take the name of a
    property in CSS spelling (\<open>background-color\<close>); a name that is not a custom property
    is lower-cased first. \<open>getPropertyValue\<close> returns the stored value, for a shorthand
    the serialisation of its longhands when all of them are declared, and the empty string
    otherwise. \<open>setProperty\<close> does nothing for a name the engine does not know; it calls
    \<open>removeProperty\<close> when the value is the empty string (\<open>null\<close> is converted to the
    empty string), which removes every declaration the property stands for; it does nothing
    when the value does not parse, and otherwise stores the parsed values under the names
    the property stands for;
  \<^item> an assignment \<open>element.style[key] = value\<close> replaces all declarations by those of
    the text \<open>value\<close> when \<open>key\<close> is \<open>cssText\<close>, and throws when \<open>key\<close> is read-only.
    Otherwise it reaches a declaration only when \<open>key\<close> is one of the object's property
    attributes: \<open>cssFloat\<close> (for \<open>float\<close>), the dashed attribute (\<open>background-color\<close>,
    for a known property with a dash in its name), the camel-cased attribute
    (\<open>backgroundColor\<close>) or the webkit-cased attribute (\<open>webkitTransform\<close> for
    \<open>-webkit-transform\<close>); the setter calls \<open>setProperty\<close> with the CSS spelling. For any
    other key (a custom property name among them) the assignment creates an ordinary
    JavaScript property on the object and no declaration changes.

  Not modelled: the priority flag (\<open>!important\<close>), and what an assignment to the name of
  one of the object's methods does to later calls of that method. Property names are taken
  to be the regular ones (letters separated by single dashes), for which an attribute
  \<open>key\<close> exists exactly when its CSS spelling is known.
\<close>

record css_engine =
  supported :: "string \<Rightarrow> bool"
  longhands :: "string \<Rightarrow> string list"
  parse_value :: "string \<Rightarrow> string \<Rightarrow> string list option"
  serialize_shorthand :: "string \<Rightarrow> string list \<Rightarrow> string"
  parse_css_text :: "string \<Rightarrow> (string \<times> string) list"
  read_only :: "string \<Rightarrow> bool"

type_synonym declarations = "string \<rightharpoonup> string"

datatype js_error = TypeError

definition is_custom_property :: "string \<Rightarrow> bool" where
  "is_custom_property property = (take 2 property = ''--'' \<and> 2 < length property)"

definition css_name :: "string \<Rightarrow> string" where
  "css_name property =
     (if is_custom_property property then property else toLowerCase property)"

text \<open>The names of the declarations that the property \<open>p\<close> (in CSS spelling) stands for.\<close>

definition property_declarations :: "css_engine \<Rightarrow> string \<Rightarrow> string list" where
  "property_declarations eng p =
     (if is_custom_property p \<or> \<not> supported eng p then [p] else longhands eng p)"

definition declared_value :: "declarations \<Rightarrow> string \<Rightarrow> string" where
  "declared_value decls t = (case decls t of Some v \<Rightarrow> v | None \<Rightarrow> [])"

definition getPropertyValue :: "css_engine \<Rightarrow> declarations \<Rightarrow> string \<Rightarrow> string" where
  "getPropertyValue eng decls property =
     (let p = css_name property in
      case property_declarations eng p of
        [t] \<Rightarrow> declared_value decls t
      | ts \<Rightarrow>
          if list_all (\<lambda>t. decls t \<noteq> None) ts
          then serialize_shorthand eng p (map (declared_value decls) ts)
          else [])"

definition removeProperty :: "css_engine \<Rightarrow> declarations \<Rightarrow> string \<Rightarrow> declarations" where
  "removeProperty eng decls property =
     fold (\<lambda>t d. d(t := None)) (property_declarations eng (css_name property)) decls"

definition legacy_null_to_empty_string :: "string option \<Rightarrow> string" where
  "legacy_null_to_empty_string value = (case value of None \<Rightarrow> [] | Some v \<Rightarrow> v)"

definition setProperty ::
  "css_engine \<Rightarrow> declarations \<Rightarrow> string \<Rightarrow> string option \<Rightarrow> declarations" where
  "setProperty eng decls property value =
     (let v = legacy_null_to_empty_string value in
      if \<not> is_custom_property property \<and> \<not> supported eng (toLowerCase property) then decls
      else if v = [] then removeProperty eng decls property
      else
        let p = css_name property in
        case parse_value eng p v of
          None \<Rightarrow> decls
        | Some ws \<Rightarrow>
            fold (\<lambda>(t, w) d. d(t \<mapsto> w)) (zip (property_declarations eng p) ws) decls)"

text \<open>From the spelling of an attribute to the CSS spelling of its property.\<close>

definition idl_attribute_to_css_property :: "string \<Rightarrow> string" where
  "idl_attribute_to_css_property attr =
     concat (map (\<lambda>c. if ascii_lower c \<noteq> c then [CHR ''-'', ascii_lower c] else [c]) attr)"

definition style_attribute_property :: "css_engine \<Rightarrow> string \<Rightarrow> string option" where
  "style_attribute_property eng key =
     (if key = ''cssFloat'' then
        (if supported eng ''float'' then Some ''float'' else None)
      else if CHR ''-'' \<in> set key then
        (if supported eng key then Some key else None)
      else
        let p = idl_attribute_to_css_property key in
        if supported eng p then Some p
        else if take 8 (CHR ''-'' # p) = ''-webkit-'' \<and> supported eng (CHR ''-'' # p)
          then Some (CHR ''-'' # p)
        else None)"

definition style_assign ::
  "css_engine \<Rightarrow> declarations \<Rightarrow> string \<Rightarrow> string \<Rightarrow> js_error + declarations" where
  "style_assign eng decls key value =
     (if key = ''cssText'' then
        Inr (fold (\<lambda>(t, w) d. d(t \<mapsto> w)) (parse_css_text eng value) Map.empty)
      else if read_only eng key then Inl TypeError
      else
        case style_attribute_property eng key of
          None \<Rightarrow> Inr decls
        | Some p \<Rightarrow> Inr (setProperty eng decls p (Some value)))"

subsection \<open>setStyle, string-keyed variant\<close>

text \<open>
  A StyleMap is the object \<open>styles\<close>, given by its entries in \<open>Object.keys\<close> order (the
  keys of an object are pairwise different). \<open>prevValues\<close> is built by assignment, key by
  key. \<open>styles[key] || null\<close> is \<open>null\<close> exactly when the value is the empty string.
  \<open>setProperty\<close> does not throw, so the function always returns: the result is the
  element's declarations after the loop together with the \<open>revert\<close> closure, which is
  represented by what it captured, \<open>prevValues\<close>.

  Running the closure is \<open>revert\<close>: \<open>Object.assign(element.style, prevValues)\<close> assigns
  every entry of \<open>prevValues\<close> to the style object, in order, on the declarations the
  element has at that moment. It stops at the first assignment that throws; the result is
  then the error with the declarations as the earlier assignments left them.
\<close>

type_synonym style_map = "(string \<times> string) list"

definition or_null :: "string \<Rightarrow> string option" where
  "or_null v = (if v = [] then None else Some v)"

fun setStyle_loop ::
  "css_engine \<Rightarrow> style_map \<Rightarrow> declarations \<times> style_map \<Rightarrow> declarations \<times> style_map" where
  "setStyle_loop eng [] (decls, prevValues) = (decls, prevValues)"
| "setStyle_loop eng ((key, v) # rest) (decls, prevValues) =
     setStyle_loop eng rest
       (setProperty eng decls key (or_null v),
        AList.update key (getPropertyValue eng decls key) prevValues)"

definition setStyle :: "css_engine \<Rightarrow> style_map \<Rightarrow> declarations \<Rightarrow> declarations \<times> style_map" where
  "setStyle eng styles decls = setStyle_loop eng styles (decls, [])"

fun revert ::
  "css_engine \<Rightarrow> style_map \<Rightarrow> declarations \<Rightarrow> js_error \<times> declarations + declarations" where
  "revert eng [] decls = Inr decls"
| "revert eng ((key, v) # rest) decls =
     (case style_assign eng decls key v of
        Inl e \<Rightarrow> Inl (e, decls)
      | Inr decls' \<Rightarrow> revert eng rest decls')"

text \<open>The declarations of the element when a call of \<open>revert\<close> has ended, either way.\<close>

definition declarations_after :: "js_error \<times> declarations + declarations \<Rightarrow> declarations" where
  "declarations_after r = (case r of Inl (e, decls) \<Rightarrow> decls | Inr decls \<Rightarrow> decls)"

subsection \<open>setStyle, variant typed by CSSProperties\<close>

text \<open>
  The second version of the file differs in the type of \<open>styles\<close> and in the write: the
  attribute \<open>element.style[key]\<close> is assigned \<open>styles[key]\<close>, or the empty string when
  that is falsy. \<open>CSSProperties\<close> admits strings, numbers and \<open>undefined\<close> as values. A
  number is given by its text (what \<open>ToString\<close> makes of it), so the falsy numbers are
  those with the texts \<open>0\<close> and \<open>NaN\<close>. The setter receives the value as a string.

  The assignment can throw; the loop ends there and no closure is returned. The result
  is then the error with the declarations at that moment.
\<close>

datatype css_value = Text string | Number string | Undefined

type_synonym css_properties = "(string \<times> css_value) list"

fun falsy :: "css_value \<Rightarrow> bool" where
  "falsy (Text s) = (s = [])"
| "falsy (Number n) = (n = ''0'' \<or> n = ''NaN'')"
| "falsy Undefined = True"

definition or_empty :: "css_value \<Rightarrow> css_value" where
  "or_empty v = (if falsy v then Text [] else v)"

fun to_dom_string :: "css_value \<Rightarrow> string" where
  "to_dom_string (Text s) = s"
| "to_dom_string (Number n) = n"
| "to_dom_string Undefined = ''undefined''"

fun setStyle_typed_loop ::
  "css_engine \<Rightarrow> css_properties \<Rightarrow> declarations \<times> style_map
     \<Rightarrow> js_error \<times> declarations + declarations \<times> style_map" where
  "setStyle_typed_loop eng [] (decls, prevValues) = Inr (decls, prevValues)"
| "setStyle_typed_loop eng ((key, v) # rest) (decls, prevValues) =
     (case style_assign eng decls key (to_dom_string (or_empty v)) of
        Inl e \<Rightarrow> Inl (e, decls)
      | Inr decls' \<Rightarrow>
          setStyle_typed_loop eng rest
            (decls', AList.update key (getPropertyValue eng decls key) prevValues))"

definition setStyle_typed ::
  "css_engine \<Rightarrow> css_properties \<Rightarrow> declarations
     \<Rightarrow> js_error \<times> declarations + declarations \<times> style_map" where
  "setStyle_typed eng styles decls = setStyle_typed_loop eng styles (decls, [])"

text \<open>A string-valued StyleMap, as the typed variant receives the same object.\<close>

definition as_css_properties :: "style_map \<Rightarrow> css_properties" where
  "as_css_properties styles = map (\<lambda>(key, v). (key, Text v)) styles"

subsection \<open>The declarations an entry of a StyleMap addresses\<close>

text \<open>
  \<open>setProperty_names eng key\<close> are the names of the declarations that a call of
  \<open>setProperty\<close> with the name \<open>key\<close> removes or stores: none when the engine does not know
  the name. \<open>style_assign_names eng key\<close> are those that an assignment to the property
  attribute \<open>key\<close> removes or stores: none when \<open>key\<close> is no property attribute.
\<close>

definition setProperty_names :: "css_engine \<Rightarrow> string \<Rightarrow> string list" where
  "setProperty_names eng property =
     (if \<not> is_custom_property property \<and> \<not> supported eng (toLowerCase property) then []
      else property_declarations eng (css_name property))"

definition style_assign_names :: "css_engine \<Rightarrow> string \<Rightarrow> string list" where
  "style_assign_names eng key =
     (if key = ''cssText'' \<or> read_only eng key then []
      else case style_attribute_property eng key of
             None \<Rightarrow> []
           | Some p \<Rightarrow> setProperty_names eng p)"

subsection \<open>A small engine for concrete runs\<close>

text \<open>
  The engine knows a few longhands, the shorthand \<open>margin\<close> and the alias
  \<open>-webkit-transform\<close>. It stores every value as written; for \<open>margin\<close> it accepts the
  one-value form and serialises by the rule for four-sided shorthands. Its \<open>cssText\<close>
  parser splits the text at semicolons and each part at its first colon.
\<close>

definition small_supported :: "string \<Rightarrow> bool" where
  "small_supported p =
     (p \<in> set [''color'', ''background-color'', ''width'', ''float'', ''transform'',
                ''-webkit-transform'', ''margin'', ''margin-top'', ''margin-right'',
                ''margin-bottom'', ''margin-left''])"

definition small_longhands :: "string \<Rightarrow> string list" where
  "small_longhands p =
     (if p = ''margin'' then [''margin-top'', ''margin-right'', ''margin-bottom'', ''margin-left'']
      else if p = ''-webkit-transform'' then [''transform'']
      else [p])"

definition small_parse_value :: "string \<Rightarrow> string \<Rightarrow> string list option" where
  "small_parse_value p v =
     (if p = ''margin'' then (if CHR '' '' \<in> set v then None else Some [v, v, v, v])
      else Some [v])"

definition small_serialize :: "string \<Rightarrow> string list \<Rightarrow> string" where
  "small_serialize p vs =
     (case vs of
        [t, r, b, l] \<Rightarrow>
          if r = l then (if t = b then (if t = r then t else t @ '' '' @ r)
                         else t @ '' '' @ r @ '' '' @ b)
          else t @ '' '' @ r @ '' '' @ b @ '' '' @ l
      | _ \<Rightarrow> [])"

fun split_at :: "char \<Rightarrow> string \<Rightarrow> string list" where
  "split_at c [] = [[]]"
| "split_at c (x # xs) =
     (if x = c then [] # split_at c xs
      else case split_at c xs of
             [] \<Rightarrow> [[x]]
           | w # ws \<Rightarrow> (x # w) # ws)"

definition trim :: "string \<Rightarrow> string" where
  "trim s = rev (dropWhile (\<lambda>c. c = CHR '' '') (rev (dropWhile (\<lambda>c. c = CHR '' '') s)))"

definition small_declaration :: "string \<Rightarrow> (string \<times> string) list" where
  "small_declaration part =
     (let p = toLowerCase (trim (takeWhile (\<lambda>c. c \<noteq> CHR '':'') part));
          v = trim (drop 1 (dropWhile (\<lambda>c. c \<noteq> CHR '':'') part))
      in if v = [] \<or> \<not> small_supported p then []
         else case small_parse_value p v of
                None \<Rightarrow> []
              | Some ws \<Rightarrow> zip (small_longhands p) ws)"

definition small_parse_css_text :: "string \<Rightarrow> (string \<times> string) list" where
  "small_parse_css_text t = concat (map small_declaration (split_at CHR '';'' t))"

definition small_engine :: css_engine where
  "small_engine =
     \<lparr>supported = small_supported,
      longhands = small_longhands,
      parse_value = small_parse_value,
      serialize_shorthand = small_serialize,
      parse_css_text = small_parse_css_text,
      read_only = (\<lambda>k. k \<in> set [''length'', ''parentRule''])\<rparr>"

section \<open>Concrete hosts and proof vocabulary\<close>

subsection \<open>A document with one span\<close>

text \<open>
  A \<open>div\<close> (node 0) that contains one \<open>span\<close> of class \<open>x\<close> (node 1). The host answers
  three selectors and rejects every other string as a syntax error.
\<close>

datatype dom_exception = SyntaxError

definition one_span_dom :: "(dom_exception, nat) dom" where
  "one_span_dom root sel =
     (if sel = ''.x'' then Inr [1]
      else if sel = ''span, div'' then Inr [0, 1]
      else if sel = ''.y'' then Inr []
      else Inl SyntaxError)"

subsection \<open>A strict selector parser\<close>

text \<open>
  A recogniser for a small part of the selector grammar: a type selector followed by any
  number of attribute selectors of the form \<open>[name=<string>]\<close>, where names are lower-case
  letters and the string is written between double quotes without escapes or line breaks.
  Every string it accepts is a well-formed selector. \<open>strict_empty_dom\<close> is an empty
  document whose engine throws on every selector outside this part.
\<close>

datatype scan = TypeStart | TypeName | AttrStart | AttrName | ValueStart | ValueText
  | ValueEnd | AttrEnd

definition lowercase_letter :: "char \<Rightarrow> bool" where
  "lowercase_letter c = (ascii_upper c \<noteq> c)"

definition string_text_char :: "char \<Rightarrow> bool" where
  "string_text_char c =
     (c \<noteq> dquote \<and> c \<noteq> CHR 0x5C \<and> c \<noteq> CHR 0x0A \<and> c \<noteq> CHR 0x0D \<and> c \<noteq> CHR 0x0C)"

fun scan_step :: "scan \<Rightarrow> char \<Rightarrow> scan option" where
  "scan_step TypeStart c = (if lowercase_letter c then Some TypeName else None)"
| "scan_step TypeName c =
     (if lowercase_letter c then Some TypeName
      else if c = CHR ''['' then Some AttrStart else None)"
| "scan_step AttrStart c = (if lowercase_letter c then Some AttrName else None)"
| "scan_step AttrName c =
     (if lowercase_letter c then Some AttrName
      else if c = CHR ''='' then Some ValueStart else None)"
| "scan_step ValueStart c = (if c = dquote then Some ValueText else None)"
| "scan_step ValueText c =
     (if c = dquote then Some ValueEnd
      else if string_text_char c then Some ValueText else None)"
| "scan_step ValueEnd c = (if c = CHR '']'' then Some AttrEnd else None)"
| "scan_step AttrEnd c = (if c = CHR ''['' then Some AttrStart else None)"

fun scan_from :: "scan \<Rightarrow> string \<Rightarrow> scan option" where
  "scan_from st [] = Some st"
| "scan_from st (c # cs) =
     (case scan_step st c of None \<Rightarrow> None | Some st' \<Rightarrow> scan_from st' cs)"

definition type_with_attributes :: "string \<Rightarrow> bool" where
  "type_with_attributes sel = (scan_from TypeStart sel \<in> {Some TypeName, Some AttrEnd})"

definition strict_empty_dom :: "(dom_exception, nat) dom" where
  "strict_empty_dom root sel = (if type_with_attributes sel then Inr [] else Inl SyntaxError)"


subsection \<open>Writes to the declarations\<close>

text \<open>
  Every call of \<open>setProperty\<close> is a list of writes, each of which gives one name an entry
  that does not depend on the declarations; an assignment to the style object that does
  not throw is such a list or, for \<open>cssText\<close>, the replacement of all declarations.
  \<open>last_write\<close> is the entry a list of writes leaves under a name, \<open>last_effect\<close> the one
  that a list of effects leaves.
\<close>

type_synonym style_write = "string \<times> string option"

datatype style_effect = Writes "style_write list" | Replace declarations

definition apply_writes :: "style_write list \<Rightarrow> declarations \<Rightarrow> declarations" where
  "apply_writes ws d = fold (\<lambda>(t, e) d. d(t := e)) ws d"

fun apply_effect :: "style_effect \<Rightarrow> declarations \<Rightarrow> declarations" where
  "apply_effect (Writes ws) d = apply_writes ws d"
| "apply_effect (Replace m) d = m"

definition setProperty_writes :: "css_engine \<Rightarrow> string \<Rightarrow> string option \<Rightarrow> style_write list" where
  "setProperty_writes eng property value =
     (let v = legacy_null_to_empty_string value in
      if v = [] then map (\<lambda>t. (t, None)) (setProperty_names eng property)
      else case parse_value eng (css_name property) v of
             None \<Rightarrow> []
           | Some ws \<Rightarrow> map (\<lambda>(t, w). (t, Some w)) (zip (setProperty_names eng property) ws))"

definition throwing :: "css_engine \<Rightarrow> string \<Rightarrow> bool" where
  "throwing eng key = (key \<noteq> ''cssText'' \<and> read_only eng key)"

definition style_assign_effect :: "css_engine \<Rightarrow> string \<Rightarrow> string \<Rightarrow> style_effect" where
  "style_assign_effect eng key value =
     (if key = ''cssText''
      then Replace (fold (\<lambda>(t, w) d. d(t \<mapsto> w)) (parse_css_text eng value) Map.empty)
      else case style_attribute_property eng key of
             None \<Rightarrow> Writes []
           | Some p \<Rightarrow> Writes (setProperty_writes eng p (Some value)))"

fun last_write :: "style_write list \<Rightarrow> string \<Rightarrow> string option option" where
  "last_write [] x = None"
| "last_write ((t, e) # ws) x =
     (case last_write ws x of
        Some r \<Rightarrow> Some r
      | None \<Rightarrow> if t = x then Some e else None)"

fun effect_at :: "style_effect \<Rightarrow> string \<Rightarrow> string option option" where
  "effect_at (Writes ws) x = last_write ws x"
| "effect_at (Replace m) x = Some (m x)"

fun last_effect :: "style_effect list \<Rightarrow> string \<Rightarrow> string option option" where
  "last_effect [] x = None"
| "last_effect (f # fs) x =
     (case last_effect fs x of
        Some r \<Rightarrow> Some r
      | None \<Rightarrow> effect_at f x)"


section \<open>The element finders: results, diagnostics and failures\<close>

lemmas finder_defs = getHtmlElement_def getMultipleHtmlElements_def querySelector_def
  querySelectorAll_def log_or_default_def console_method_of_def

lemmas message_defs = element_not_found_message_def no_elements_found_message_def
  toUpperCase_def ascii_upper_def where_searched_def

lemmas scan_defs = type_with_attributes_def active_script_selector_def lowercase_letter_def
  string_text_char_def ascii_upper_def dquote_def

text \<open>
  C2. Whenever the query yields at least one node, \<open>getMultipleHtmlElements\<close> returns
  exactly the list of matching nodes, in the order of the query (document order), with the
  console untouched, and never \<open>null\<close>; whenever the query yields no node it returns
  \<open>null\<close>, not the empty list.
\<close>

theorem getMultipleHtmlElements_all_or_null:
  "querySelectorAll d (parent props) (selector props) = Inr ms \<Longrightarrow>
     (ms \<noteq> [] \<longrightarrow> getMultipleHtmlElements d props console = Inr (Some ms, console)) \<and>
     (ms = [] \<longrightarrow> (\<exists>console'. getMultipleHtmlElements d props console = Inr (None, console')))"
  by (simp add: getMultipleHtmlElements_def Let_def)

theorem getMultipleHtmlElements_all_or_null_witness:
  "querySelectorAll one_span_dom None ''span, div'' = Inr [0, 1] \<and>
   getMultipleHtmlElements one_span_dom \<lparr>selector = ''span, div'', parent = None, log = None\<rparr> []
     = Inr (Some [0, 1], []) \<and>
   querySelectorAll one_span_dom (Some 0) ''.y'' = Inr [] \<and>
   (\<exists>console'. getMultipleHtmlElements one_span_dom
        \<lparr>selector = ''.y'', parent = Some 0, log = Some LogError\<rparr> [] = Inr (None, console'))"
  using getMultipleHtmlElements_all_or_null
          [of one_span_dom "\<lparr>selector = ''span, div'', parent = None, log = None\<rparr>" "[0, 1]" "[]"]
        getMultipleHtmlElements_all_or_null
          [of one_span_dom "\<lparr>selector = ''.y'', parent = Some 0, log = Some LogError\<rparr>" "[]" "[]"]
  by (simp add: querySelectorAll_def one_span_dom_def)

text \<open>
  C3. When the query finds no node, \<open>getHtmlElement\<close> returns \<open>null\<close>; with the level
  \<open>debug\<close> (also the default) it adds exactly one call of \<open>console.debug\<close> to the console,
  with the level \<open>error\<close> exactly one call of \<open>console.error\<close>, and with \<open>false\<close> nothing.
  When the query finds a node, it returns the first match and the console is unchanged.
\<close>

theorem getHtmlElement_not_found_or_found:
  "(d (parent props) (selector props) = Inr [] \<longrightarrow>
      (log_or_default props = LogFalse \<longrightarrow> getHtmlElement d props console = Inr (None, console)) \<and>
      (log_or_default props = LogDebug \<longrightarrow>
         getHtmlElement d props console =
           Inr (None, console @ [\<lparr>called = ConsoleDebug,
                  message = element_not_found_message LogDebug (selector props) (parent props),
                  argument = parent props\<rparr>])) \<and>
      (log_or_default props = LogError \<longrightarrow>
         getHtmlElement d props console =
           Inr (None, console @ [\<lparr>called = ConsoleError,
                  message = element_not_found_message LogError (selector props) (parent props),
                  argument = parent props\<rparr>]))) \<and>
   (\<forall>x xs. d (parent props) (selector props) = Inr (x # xs) \<longrightarrow>
      getHtmlElement d props console = Inr (Some x, console))"
  by (simp add: getHtmlElement_def querySelector_def console_method_of_def Let_def)

theorem getHtmlElement_not_found_or_found_witness:
  "getHtmlElement one_span_dom \<lparr>selector = ''.y'', parent = None, log = None\<rparr> [] =
     Inr (None, [\<lparr>called = ConsoleDebug,
                  message = ''DEBUG: Element with selector '' @ [dquote] @ ''.y'' @ [dquote]
                              @ '' not found in the document.'',
                  argument = None\<rparr>]) \<and>
   getHtmlElement one_span_dom \<lparr>selector = ''.y'', parent = Some 0, log = Some LogError\<rparr> [] =
     Inr (None, [\<lparr>called = ConsoleError,
                  message = ''ERROR: Element with selector '' @ [dquote] @ ''.y'' @ [dquote]
                              @ '' not found in the specified parent element:'',
                  argument = Some 0\<rparr>]) \<and>
   getHtmlElement one_span_dom \<lparr>selector = ''.y'', parent = None, log = Some LogFalse\<rparr> [] =
     Inr (None, []) \<and>
   getHtmlElement one_span_dom \<lparr>selector = ''.x'', parent = Some 0, log = None\<rparr> [] =
     Inr (Some 1, [])"
  using getHtmlElement_not_found_or_found
          [of one_span_dom "\<lparr>selector = ''.y'', parent = None, log = None\<rparr>" "[]"]
        getHtmlElement_not_found_or_found
          [of one_span_dom "\<lparr>selector = ''.y'', parent = Some 0, log = Some LogError\<rparr>" "[]"]
        getHtmlElement_not_found_or_found
          [of one_span_dom "\<lparr>selector = ''.y'', parent = None, log = Some LogFalse\<rparr>" "[]"]
        getHtmlElement_not_found_or_found
          [of one_span_dom "\<lparr>selector = ''.x'', parent = Some 0, log = None\<rparr>" "[]"]
  by (simp add: one_span_dom_def log_or_default_def message_defs)

text \<open>
  C7. Neither finder throws when nothing is found: both return \<open>null\<close>. When the query
  itself throws (a selector the engine rejects), both finders throw the very same value:
  it is neither caught nor replaced.
\<close>

theorem finders_throw_only_what_the_query_throws:
  "(d (parent props) (selector props) = Inr [] \<longrightarrow>
      (\<exists>console'. getHtmlElement d props console = Inr (None, console')) \<and>
      (\<exists>console'. getMultipleHtmlElements d props console = Inr (None, console'))) \<and>
   (\<forall>e. d (parent props) (selector props) = Inl e \<longrightarrow>
      getHtmlElement d props console = Inl e \<and>
      getMultipleHtmlElements d props console = Inl e)"
  by (simp add: getHtmlElement_def getMultipleHtmlElements_def querySelector_def
      querySelectorAll_def Let_def)

theorem finders_throw_only_what_the_query_throws_witness:
  "(\<exists>console'. getHtmlElement one_span_dom \<lparr>selector = ''.y'', parent = None, log = None\<rparr> []
       = Inr (None, console')) \<and>
   (\<exists>console'. getMultipleHtmlElements one_span_dom
       \<lparr>selector = ''.y'', parent = None, log = None\<rparr> [] = Inr (None, console')) \<and>
   getHtmlElement one_span_dom \<lparr>selector = ''..'', parent = None, log = None\<rparr> []
     = Inl SyntaxError \<and>
   getMultipleHtmlElements one_span_dom \<lparr>selector = ''..'', parent = None, log = None\<rparr> []
     = Inl SyntaxError"
  using finders_throw_only_what_the_query_throws
          [of one_span_dom "\<lparr>selector = ''.y'', parent = None, log = None\<rparr>" "[]"]
        finders_throw_only_what_the_query_throws
          [of one_span_dom "\<lparr>selector = ''..'', parent = None, log = None\<rparr>" "[]"]
  by (simp add: one_span_dom_def)

text \<open>
  C8. With \<open>log: false\<close> neither finder writes to the console, whether the query finds
  nodes or not: every result comes with the console it started from.
\<close>

theorem log_false_is_silent:
  "log props = Some LogFalse \<Longrightarrow>
     (\<forall>r console'. getHtmlElement d props console = Inr (r, console') \<longrightarrow> console' = console) \<and>
     (\<forall>r console'. getMultipleHtmlElements d props console = Inr (r, console')
         \<longrightarrow> console' = console)"
  by (auto simp: getHtmlElement_def getMultipleHtmlElements_def log_or_default_def Let_def
      split: sum.splits option.splits if_splits)

theorem log_false_is_silent_witness:
  "getHtmlElement one_span_dom \<lparr>selector = ''.y'', parent = None, log = Some LogFalse\<rparr> []
     = Inr (None, []) \<and>
   getMultipleHtmlElements one_span_dom \<lparr>selector = ''.y'', parent = None, log = Some LogFalse\<rparr> []
     = Inr (None, []) \<and>
   getHtmlElement one_span_dom \<lparr>selector = ''.x'', parent = None, log = Some LogFalse\<rparr> []
     = Inr (Some 1, []) \<and>
   getMultipleHtmlElements one_span_dom \<lparr>selector = ''.x'', parent = None, log = Some LogFalse\<rparr> []
     = Inr (Some [1], [])"
  using log_false_is_silent
          [of "\<lparr>selector = ''.y'', parent = None, log = Some LogFalse\<rparr>" one_span_dom "[]"]
        log_false_is_silent
          [of "\<lparr>selector = ''.x'', parent = None, log = Some LogFalse\<rparr>" one_span_dom "[]"]
  by (simp add: finder_defs one_span_dom_def Let_def)

section \<open>The active-script locator\<close>

text \<open>
  C5, as stated, has the locator delegate with logging disabled. It does not: the call
  passes no \<open>log\<close> option, so the default \<open>debug\<close> of \<open>getHtmlElement\<close> applies. In a
  document without a matching script the locator writes one \<open>console.debug\<close> call, where
  a delegation with \<open>log: false\<close> writes nothing.
\<close>

theorem getActiveScript_logging_counterexample:
  "getActiveScript strict_empty_dom ''https://example.com/main.js'' [] =
     Inr (None, [\<lparr>called = ConsoleDebug,
                  message = ''DEBUG: Element with selector '' @ [dquote]
                     @ ''script[src='' @ [dquote] @ ''https://example.com/main.js'' @ [dquote] @ '']''
                     @ [dquote] @ '' not found in the document.'',
                  argument = None\<rparr>]) \<and>
   getHtmlElement strict_empty_dom
     \<lparr>selector = active_script_selector ''https://example.com/main.js'', parent = None,
      log = Some LogFalse\<rparr> [] = Inr (None, [])"
  by (simp add: getActiveScript_def finder_defs strict_empty_dom_def message_defs scan_defs Let_def)

text \<open>
  C5, amended. The locator takes no argument of its caller. It builds the selector
  \<open>script[src=<quote>URL<quote>]\<close> from the module's URL and delegates to \<open>getHtmlElement\<close>
  on the whole document with the default log level \<open>debug\<close>, which the caller cannot
  change. It returns the first matching script with the console unchanged, or \<open>null\<close>
  together with one \<open>console.debug\<close> call when no script matches.
\<close>

theorem getActiveScript_delegates_with_default_log:
  fixes d :: "('e, 'n) dom"
  shows
  "getActiveScript d currentModuleUrl console =
     getHtmlElement d
       \<lparr>selector = ''script[src='' @ [dquote] @ currentModuleUrl @ [dquote] @ '']'',
        parent = None, log = Some LogDebug\<rparr> console \<and>
   (d None (active_script_selector currentModuleUrl) = Inr [] \<longrightarrow>
      getActiveScript d currentModuleUrl console =
        Inr (None, console @ [\<lparr>called = ConsoleDebug,
               message = element_not_found_message LogDebug
                           (active_script_selector currentModuleUrl) (None :: 'n option),
               argument = None\<rparr>])) \<and>
   (\<forall>x xs. d None (active_script_selector currentModuleUrl) = Inr (x # xs) \<longrightarrow>
      getActiveScript d currentModuleUrl console = Inr (Some x, console))"
  by (simp add: getActiveScript_def getHtmlElement_def querySelector_def log_or_default_def
      console_method_of_def active_script_selector_def Let_def
      split: sum.splits list.splits)

theorem getActiveScript_delegates_with_default_log_witness:
  "getActiveScript strict_empty_dom ''https://example.com/main.js'' [] =
     getHtmlElement strict_empty_dom
       \<lparr>selector = ''script[src='' @ [dquote] @ ''https://example.com/main.js'' @ [dquote] @ '']'',
        parent = None, log = Some LogDebug\<rparr> [] \<and>
   getActiveScript strict_empty_dom ''https://example.com/main.js'' [] =
     Inr (None, [\<lparr>called = ConsoleDebug,
            message = element_not_found_message LogDebug
                        (active_script_selector ''https://example.com/main.js'') (None :: nat option),
            argument = None\<rparr>])"
  using getActiveScript_delegates_with_default_log
          [of strict_empty_dom "''https://example.com/main.js''" "[]"]
  by (simp add: getActiveScript_def finder_defs strict_empty_dom_def scan_defs Let_def)

text \<open>
  C10, as stated, has every module URL that contains a double quote produce a malformed
  selector and hence a thrown error. The URL made of a quote, the characters \<open>][src=\<close> and
  a quote contains two: pasted in, it closes the first attribute selector and opens a
  second one, and the result is a type selector with two well-formed attribute selectors.
  Even the strict parser accepts it, the query does not throw, and the locator returns
  \<open>null\<close>.
\<close>

theorem quoted_url_selector_counterexample:
  "dquote \<in> set ([dquote] @ ''][src='' @ [dquote]) \<and>
   active_script_selector ([dquote] @ ''][src='' @ [dquote]) =
     ''script[src='' @ [dquote, dquote] @ ''][src='' @ [dquote, dquote] @ '']'' \<and>
   type_with_attributes (active_script_selector ([dquote] @ ''][src='' @ [dquote])) \<and>
   getActiveScript strict_empty_dom ([dquote] @ ''][src='' @ [dquote]) [] =
     Inr (None, [\<lparr>called = ConsoleDebug,
            message = element_not_found_message LogDebug
                        (active_script_selector ([dquote] @ ''][src='' @ [dquote]))
                        (None :: nat option),
            argument = None\<rparr>])"
  by (simp add: getActiveScript_def finder_defs strict_empty_dom_def scan_defs Let_def)

text \<open>
  C10, amended. The locator pastes the module URL between the two quotes of the selector
  character for character, with no escaping. Whenever the query rejects the selector so
  built, the locator throws that same failure instead of returning \<open>null\<close>; whenever the
  query accepts it, the locator returns normally. A URL with a double quote in it can make
  the selector malformed (the URL \<open>a<quote>b\<close> does) but need not.
\<close>

theorem getActiveScript_pastes_url_and_passes_failure:
  "active_script_selector currentModuleUrl =
     ''script[src='' @ [dquote] @ currentModuleUrl @ [dquote] @ '']'' \<and>
   (\<forall>e. d None (active_script_selector currentModuleUrl) = Inl e \<longrightarrow>
      getActiveScript d currentModuleUrl console = Inl e) \<and>
   (\<forall>ms. d None (active_script_selector currentModuleUrl) = Inr ms \<longrightarrow>
      (\<exists>r. getActiveScript d currentModuleUrl console = Inr r))"
  by (simp add: getActiveScript_def getHtmlElement_def querySelector_def
      active_script_selector_def Let_def split: list.splits)

theorem getActiveScript_pastes_url_and_passes_failure_witness:
  "active_script_selector (''a'' @ [dquote] @ ''b'') =
     ''script[src='' @ [dquote] @ ''a'' @ [dquote] @ ''b'' @ [dquote] @ '']'' \<and>
   strict_empty_dom None (active_script_selector (''a'' @ [dquote] @ ''b'')) = Inl SyntaxError \<and>
   getActiveScript strict_empty_dom (''a'' @ [dquote] @ ''b'') [] = Inl SyntaxError \<and>
   strict_empty_dom None (active_script_selector ''https://example.com/main.js'') = Inr [] \<and>
   (\<exists>r. getActiveScript strict_empty_dom ''https://example.com/main.js'' [] = Inr r)"
  using getActiveScript_pastes_url_and_passes_failure
          [of "''a'' @ [dquote] @ ''b''" strict_empty_dom "[]"]
        getActiveScript_pastes_url_and_passes_failure
          [of "''https://example.com/main.js''" strict_empty_dom "[]"]
  by (simp add: getActiveScript_def finder_defs strict_empty_dom_def scan_defs Let_def)

section \<open>The style patcher: effects, clearing and revert\<close>

lemmas style_defs = small_engine_def small_supported_def small_longhands_def small_parse_value_def
  small_serialize_def small_parse_css_text_def small_declaration_def trim_def
  setStyle_def setStyle_typed_def style_assign_def
  style_attribute_property_def idl_attribute_to_css_property_def setProperty_def removeProperty_def
  property_declarations_def declared_value_def
  legacy_null_to_empty_string_def getPropertyValue_def css_name_def is_custom_property_def
  toLowerCase_def ascii_lower_def or_null_def or_empty_def as_css_properties_def
  declarations_after_def setProperty_names_def style_assign_names_def
  Let_def


subsection \<open>Names\<close>

lemma ascii_lower_dash: "ascii_lower c = CHR ''-'' \<longleftrightarrow> c = CHR ''-''"
  by (auto simp: ascii_lower_def split: option.splits if_splits)

lemma is_custom_property_toLowerCase:
  "is_custom_property (toLowerCase s) = is_custom_property s"
proof (cases s)
  case Nil
  then show ?thesis by (simp add: toLowerCase_def is_custom_property_def)
next
  case (Cons a t)
  then show ?thesis
    by (cases t) (auto simp: toLowerCase_def is_custom_property_def ascii_lower_dash)
qed

subsection \<open>What writes and effects leave behind\<close>

lemma apply_writes_at:
  "apply_writes ws d x = (case last_write ws x of None \<Rightarrow> d x | Some r \<Rightarrow> r)"
  unfolding apply_writes_def
  by (induction ws arbitrary: d) (auto split: option.splits)

lemma apply_effect_at:
  "apply_effect f d x = (case effect_at f x of None \<Rightarrow> d x | Some r \<Rightarrow> r)"
  by (cases f) (simp_all add: apply_writes_at)

lemma fold_apply_effect_at:
  "fold apply_effect fs d x = (case last_effect fs x of None \<Rightarrow> d x | Some r \<Rightarrow> r)"
  by (induction fs arbitrary: d) (auto simp: apply_effect_at split: option.splits)

lemma fold_apply_effect_twice:
  "fold apply_effect fs (fold apply_effect fs d) = fold apply_effect fs d"
  by (rule ext) (simp add: fold_apply_effect_at split: option.splits)

lemma last_write_untouched: "x \<notin> fst ` set ws \<Longrightarrow> last_write ws x = None"
  by (induction ws) (auto split: option.splits)





subsection \<open>Every style operation is an effect\<close>

lemma removal_as_writes:
  "fold (\<lambda>t d. d(t := None)) ts d = apply_writes (map (\<lambda>t. (t, None)) ts) d"
  by (simp add: apply_writes_def fold_map comp_def)

lemma storing_as_writes:
  "fold (\<lambda>(t, w) d. d(t \<mapsto> w)) zs d = apply_writes (map (\<lambda>(t, w). (t, Some w)) zs) d"
  by (simp add: apply_writes_def fold_map comp_def case_prod_unfold)

lemma setProperty_as_writes:
  "setProperty eng d property value = apply_writes (setProperty_writes eng property value) d"
  by (auto simp: setProperty_def setProperty_writes_def setProperty_names_def removeProperty_def
      removal_as_writes storing_as_writes apply_writes_def Let_def split: option.splits)

lemma style_assign_as_effect:
  "style_assign eng d key value =
     (if throwing eng key then Inl TypeError
      else Inr (apply_effect (style_assign_effect eng key value) d))"
  by (auto simp: style_assign_def style_assign_effect_def throwing_def setProperty_as_writes
      apply_writes_def split: option.splits)

lemma setProperty_writes_names:
  "x \<notin> set (setProperty_names eng property) \<Longrightarrow>
     last_write (setProperty_writes eng property value) x = None"
proof (rule last_write_untouched)
  assume x: "x \<notin> set (setProperty_names eng property)"
  have "fst ` set (setProperty_writes eng property value) \<subseteq> set (setProperty_names eng property)"
    by (auto simp: setProperty_writes_def Let_def split: option.splits dest: set_zip_leftD)
  then show "x \<notin> fst ` set (setProperty_writes eng property value)"
    using x by blast
qed




subsection \<open>The loops and revert as lists of effects\<close>



lemma revert_as_effects:
  "revert eng prevValues d =
     (let d' = fold apply_effect
                 (map (\<lambda>(key, v). style_assign_effect eng key v)
                    (takeWhile (\<lambda>(key, v). \<not> throwing eng key) prevValues)) d
      in if list_all (\<lambda>(key, v). \<not> throwing eng key) prevValues then Inr d'
         else Inl (TypeError, d'))"
  by (induction prevValues arbitrary: d) (auto simp: style_assign_as_effect Let_def)

lemma revert_again:
  "revert eng prevValues (declarations_after (revert eng prevValues d)) = revert eng prevValues d"
  by (simp add: revert_as_effects [of eng prevValues] declarations_after_def Let_def
      fold_apply_effect_twice)

subsection \<open>Claims about the style patcher\<close>




text \<open>
  C9. Running the revert handle a second time gives the result of the first run again: the
  same declarations, whatever they were when the handle was first run, and the same way
  of ending. Each run assigns the same captured \<open>prevValues\<close> and accumulates nothing.
  This holds for the handle of the string-keyed variant and for the handle that the typed
  variant returns.
\<close>

theorem revert_twice_is_revert_once:
  "revert eng (snd (setStyle eng styles decls0))
       (declarations_after (revert eng (snd (setStyle eng styles decls0)) decls))
     = revert eng (snd (setStyle eng styles decls0)) decls \<and>
   (case setStyle_typed eng typed_styles decls0 of
      Inl thrown \<Rightarrow> True
    | Inr (patched, prevValues) \<Rightarrow>
        revert eng prevValues (declarations_after (revert eng prevValues decls))
          = revert eng prevValues decls)"
  by (simp add: revert_again split: sum.splits)

text \<open>
  C1 asks that patch followed by revert restores every property of the StyleMap to its
  value before the patch. Run on the example of the function's own documentation,
  \<open>{ color: 'red', backgroundColor: 'blue' }\<close>, on an element whose inline style is
  \<open>background-color: green\<close>, the code does not: \<open>getPropertyValue\<close> does not know the
  spelling \<open>backgroundColor\<close> and captures the empty string, and revert then assigns the
  empty string to the attribute \<open>backgroundColor\<close>, which removes the declaration. The
  typed variant ends without \<open>background-color\<close> after having set it to \<open>blue\<close>; the
  string-keyed variant never changes it in the patch and still removes it in revert. The
  string-keyed variant also fails on a custom property: \<open>setProperty\<close> changes \<open>--gap\<close>,
  and the assignment of revert creates a plain object property and leaves the
  declaration at the patched value.
\<close>

theorem revert_loses_previous_value:
  "getPropertyValue small_engine [''background-color'' \<mapsto> ''green''] ''background-color''
     = ''green'' \<and>
   (case setStyle_typed small_engine
           (as_css_properties [(''color'', ''red''), (''backgroundColor'', ''blue'')])
           [''background-color'' \<mapsto> ''green''] of
      Inl thrown \<Rightarrow> False
    | Inr (patched, prevValues) \<Rightarrow>
        getPropertyValue small_engine patched ''background-color'' = ''blue'' \<and>
        prevValues = [(''color'', []), (''backgroundColor'', [])] \<and>
        (case revert small_engine prevValues patched of
           Inl thrown \<Rightarrow> False
         | Inr reverted \<Rightarrow>
             getPropertyValue small_engine reverted ''background-color'' = [])) \<and>
   (let (patched, prevValues) =
          setStyle small_engine [(''color'', ''red''), (''backgroundColor'', ''blue'')]
            [''background-color'' \<mapsto> ''green'']
    in getPropertyValue small_engine patched ''background-color'' = ''green'' \<and>
       prevValues = [(''color'', []), (''backgroundColor'', [])] \<and>
       (case revert small_engine prevValues patched of
          Inl thrown \<Rightarrow> False
        | Inr reverted \<Rightarrow>
            getPropertyValue small_engine reverted ''background-color'' = [])) \<and>
   (let (patched, prevValues) =
          setStyle small_engine [(''--gap'', ''8px'')] [''--gap'' \<mapsto> ''4px'']
    in getPropertyValue small_engine patched ''--gap'' = ''8px'' \<and>
       prevValues = [(''--gap'', ''4px'')] \<and>
       (case revert small_engine prevValues patched of
          Inl thrown \<Rightarrow> False
        | Inr reverted \<Rightarrow> getPropertyValue small_engine reverted ''--gap'' = ''8px''))"
  by (simp add: style_defs)

text \<open>
  C6 asks that the two variants behave alike on every StyleMap both accept. On the
  documented example \<open>{ color: 'red', backgroundColor: 'blue' }\<close> they do not: the typed
  variant assigns the attribute \<open>backgroundColor\<close> and sets \<open>background-color\<close>, the
  string-keyed variant calls \<open>setProperty\<close> with the name \<open>backgroundColor\<close>, which is not
  a property name, and sets nothing. Both set \<open>color\<close>.
\<close>

theorem variants_differ_on_camel_case_key:
  "(case setStyle_typed small_engine
           (as_css_properties [(''color'', ''red''), (''backgroundColor'', ''blue'')])
           Map.empty of
      Inl thrown \<Rightarrow> False
    | Inr (patched, prevValues) \<Rightarrow>
        patched ''background-color'' = Some ''blue'' \<and> patched ''color'' = Some ''red'') \<and>
   fst (setStyle small_engine [(''color'', ''red''), (''backgroundColor'', ''blue'')]
          Map.empty) ''background-color'' = None \<and>
   fst (setStyle small_engine [(''color'', ''red''), (''backgroundColor'', ''blue'')]
          Map.empty) ''color'' = Some ''red''"
  by (simp add: style_defs)

subsection \<open>Keys in CSS spelling\<close>

text \<open>
  The defect behind C1 and C6 is one of spelling. For a key that is the CSS name of a
  longhand property and a style attribute at the same time (a lower-case name of one word
  such as \<open>color\<close>, or a dashed name such as \<open>background-color\<close>), the methods and the
  assignment address the same declaration. On string-valued StyleMaps of such keys the
  two variants are the same function, and patch followed by revert gives every key of the
  StyleMap the entry it had before the patch, an absent one included, provided the stored
  values parse to themselves.
\<close>

lemma update_fresh_key: "k \<notin> fst ` set al \<Longrightarrow> AList.update k v al = al @ [(k, v)]"
  by (induction al) auto

lemma getPropertyValue_longhand:
  "css_name k = k \<Longrightarrow> property_declarations eng k = [k] \<Longrightarrow>
     getPropertyValue eng d k = declared_value d k"
  by (simp add: getPropertyValue_def)

lemma setProperty_elsewhere:
  "x \<notin> set (setProperty_names eng property) \<Longrightarrow> setProperty eng d property value x = d x"
  by (simp add: setProperty_as_writes apply_writes_at setProperty_writes_names)

lemma longhand_names:
  "css_name k = k \<Longrightarrow> property_declarations eng k = [k] \<Longrightarrow> set (setProperty_names eng k) \<subseteq> {k}"
  by (simp add: setProperty_names_def)

lemma snd_setStyle_loop:
  "distinct (map fst styles) \<Longrightarrow>
   \<forall>k \<in> fst ` set styles.
      css_name k = k \<and> property_declarations eng k = [k] \<and> k \<notin> fst ` set pv \<Longrightarrow>
     snd (setStyle_loop eng styles (d, pv)) =
       pv @ map (\<lambda>(k, v). (k, declared_value d k)) styles"
proof (induction styles arbitrary: d pv)
  case Nil
  then show ?case by simp
next
  case (Cons kv rest)
  obtain key v where kv: "kv = (key, v)" by (cases kv)
  let ?d = "setProperty eng d key (or_null v)"
  let ?pv = "AList.update key (getPropertyValue eng d key) pv"
  have key: "css_name key = key" "property_declarations eng key = [key]"
    using Cons.prems(2) kv by simp_all
  have fresh: "?pv = pv @ [(key, declared_value d key)]"
    using Cons.prems(2) kv by (simp add: update_fresh_key getPropertyValue_longhand)
  have d1: "distinct (map fst rest)"
    using Cons.prems(1) by simp
  have d2: "\<forall>k \<in> fst ` set rest.
              css_name k = k \<and> property_declarations eng k = [k] \<and> k \<notin> fst ` set ?pv"
    using Cons.prems kv fresh by auto
  have same: "map (\<lambda>(k, v). (k, declared_value ?d k)) rest =
              map (\<lambda>(k, v). (k, declared_value d k)) rest"
  proof (rule map_cong [OF refl])
    fix e assume e: "e \<in> set rest"
    obtain k w where kw: "e = (k, w)" by (cases e)
    have "k \<noteq> key" using Cons.prems(1) kv e kw by force
    then have "k \<notin> set (setProperty_names eng key)"
      using longhand_names [OF key] by auto
    then have "?d k = d k"
      by (rule setProperty_elsewhere)
    then show "(case e of (k, v) \<Rightarrow> (k, declared_value ?d k)) =
               (case e of (k, v) \<Rightarrow> (k, declared_value d k))"
      by (simp add: kw declared_value_def)
  qed
  show ?case
    using Cons.IH [OF d1 d2] by (simp add: kv fresh same)
qed

lemma last_effect_of_keys:
  "last_effect (map (\<lambda>(k, v). Writes [(k, f k)]) styles) x =
     (if x \<in> fst ` set styles then Some (f x) else None)"
  by (induction styles) (auto split: option.splits)

lemma revert_effect_restores:
  assumes attr: "style_attribute_property eng k = Some k" and nontext: "k \<noteq> ''cssText''"
    and name: "css_name k = k" and own: "property_declarations eng k = [k]"
    and stored: "\<forall>v. d k = Some v \<longrightarrow> v \<noteq> [] \<and> parse_value eng k v = Some [v]"
  shows "style_assign_effect eng k (declared_value d k) = Writes [(k, d k)]"
proof -
  have sup: "is_custom_property k \<or> supported eng (toLowerCase k)"
    using attr name
    by (auto simp: style_attribute_property_def css_name_def Let_def split: if_splits)
  then have names: "setProperty_names eng k = [k]"
    using name own by (auto simp: setProperty_names_def)
  show ?thesis
    using stored
    by (auto simp: style_assign_effect_def attr nontext setProperty_writes_def names name
        declared_value_def legacy_null_to_empty_string_def split: option.splits)
qed

lemma round_trip_on_css_spelled_keys:
  assumes keys: "\<forall>k \<in> fst ` set styles.
                   style_attribute_property eng k = Some k \<and> k \<noteq> ''cssText'' \<and>
                   \<not> read_only eng k \<and> css_name k = k \<and> property_declarations eng k = [k]"
    and dist: "distinct (map fst styles)"
    and stored: "\<forall>p v. decls p = Some v \<longrightarrow> v \<noteq> [] \<and> parse_value eng p v = Some [v]"
    and k: "k \<in> fst ` set styles"
  shows "\<exists>reverted.
           revert eng (snd (setStyle eng styles decls)) (fst (setStyle eng styles decls))
             = Inr reverted \<and>
           reverted k = decls k"
proof -
  let ?ok = "\<lambda>(key, v :: string). \<not> throwing eng key"
  let ?prev = "map (\<lambda>(k, v). (k, declared_value decls k)) styles"
  have prev: "snd (setStyle eng styles decls) = ?prev"
    using snd_setStyle_loop [OF dist, of eng "[]" decls] keys by (simp add: setStyle_def)
  have all_ok: "\<forall>e \<in> set ?prev. ?ok e"
    using keys by (force simp: throwing_def)
  then have whole: "takeWhile ?ok ?prev = ?prev" "list_all ?ok ?prev"
    by (simp_all add: list_all_iff)
  have effects: "map (\<lambda>(key, v). style_assign_effect eng key v) ?prev =
                 map (\<lambda>(k, v). Writes [(k, decls k)]) styles"
    unfolding map_map
  proof (rule map_cong [OF refl])
    fix e assume e: "e \<in> set styles"
    obtain k' w where kw: "e = (k', w)" by (cases e)
    have "style_attribute_property eng k' = Some k'" "k' \<noteq> ''cssText''" "css_name k' = k'"
      "property_declarations eng k' = [k']"
      using keys e kw by force+
    then have "style_assign_effect eng k' (declared_value decls k') = Writes [(k', decls k')]"
      using stored by (intro revert_effect_restores) auto
    then show "((\<lambda>(key, v). style_assign_effect eng key v) \<circ>
                 (\<lambda>(k, v). (k, declared_value decls k))) e =
               (case e of (k, v) \<Rightarrow> Writes [(k, decls k)])"
      by (simp add: kw)
  qed
  have "revert eng ?prev d0 =
          Inr (fold apply_effect (map (\<lambda>(k, v). Writes [(k, decls k)]) styles) d0)" for d0
    unfolding revert_as_effects [of eng ?prev] Let_def whole(1) effects
    using whole(2) by simp
  then show ?thesis
    unfolding prev using k by (simp add: fold_apply_effect_at last_effect_of_keys)
qed

lemma variants_agree_on_css_spelled_keys:
  "\<forall>k \<in> fst ` set styles.
      style_attribute_property eng k = Some k \<and> k \<noteq> ''cssText'' \<and> \<not> read_only eng k \<Longrightarrow>
     setStyle_typed_loop eng (as_css_properties styles) (d, pv) =
       Inr (setStyle_loop eng styles (d, pv))"
proof (induction styles arbitrary: d pv)
  case Nil
  then show ?case by (simp add: as_css_properties_def)
next
  case (Cons kv rest)
  obtain key v where kv: "kv = (key, v)" by (cases kv)
  have "style_attribute_property eng key = Some key" "key \<noteq> ''cssText''" "\<not> read_only eng key"
    using Cons.prems kv by simp_all
  then have "style_assign eng d key (to_dom_string (or_empty (Text v))) =
             Inr (setProperty eng d key (or_null v))"
    by (simp add: style_assign_def setProperty_def or_empty_def or_null_def
        legacy_null_to_empty_string_def)
  then show ?case
    using Cons by (simp add: kv as_css_properties_def)
qed

lemma round_trip_example:
  "(let decls = [''background-color'' \<mapsto> ''green''];
        styles = [(''color'', ''red''), (''background-color'', ''blue'')];
        (patched, prevValues) = setStyle small_engine styles decls
    in patched ''color'' = Some ''red'' \<and> patched ''background-color'' = Some ''blue'' \<and>
       revert small_engine prevValues patched = Inr decls)"
  by (simp add: style_defs fun_eq_iff)

end
